theory Spec2Isabelle
  imports Main "HOL-Library.Sublist" "HOL-Library.Multiset"
begin

section \<open>Python values used by the two modules\<close>

text \<open>
  Strings are \<open>string\<close> (lists of characters).  An exception is a value carrying
  its class name and the text that \<open>str(e)\<close> gives; a computation that may raise
  returns \<open>py_exception + 'a\<close> with \<open>Inl\<close> for the raised exception.
\<close>

datatype py_exception = PyExc (exc_class: string) (exc_str: string)

definition NL :: string where
  "NL = [CHR 0x0A]"

text \<open>\<open>sep.join(xs)\<close>\<close>

fun py_join :: "string \<Rightarrow> string list \<Rightarrow> string" where
  "py_join sep [] = []"
| "py_join sep [x] = x"
| "py_join sep (x # y # ys) = x @ sep @ py_join sep (y # ys)"

text \<open>\<open>sub in s\<close> on strings: \<open>sub\<close> occurs contiguously somewhere in \<open>s\<close>.\<close>

fun py_contains :: "string \<Rightarrow> string \<Rightarrow> bool" where
  "py_contains sub [] = (sub = [])"
| "py_contains sub (c # cs) = (prefix sub (c # cs) \<or> py_contains sub cs)"

text \<open>
  \<open>s.split(sep)\<close> for a non-empty separator: the string is cut at the leftmost
  occurrence of \<open>sep\<close>, then the scan resumes behind that occurrence.  (Python raises
  \<open>ValueError\<close> for an empty separator; both separators of the program are non-empty
  literals, and the guard \<open>sep \<noteq> []\<close> keeps the recursion well-founded.)
\<close>

function py_split :: "string \<Rightarrow> string \<Rightarrow> string list" where
  "py_split sep [] = [[]]"
| "py_split sep (c # cs) =
     (if sep \<noteq> [] \<and> prefix sep (c # cs)
      then [] # py_split sep (drop (length sep) (c # cs))
      else (case py_split sep cs of
              p # ps \<Rightarrow> (c # p) # ps
            | [] \<Rightarrow> [[c]]))"
  by pat_completeness auto
termination
  by (relation "measure (\<lambda>(sep, s). length s)") auto

text \<open>\<open>xs[i]\<close> for \<open>i \<ge> 0\<close>; \<open>None\<close> stands for \<open>IndexError\<close>.\<close>

fun py_index :: "'a list \<Rightarrow> nat \<Rightarrow> 'a option" where
  "py_index [] i = None"
| "py_index (x # xs) 0 = Some x"
| "py_index (x # xs) (Suc i) = py_index xs i"

text \<open>
  \<open>s.strip()\<close>: leading and trailing whitespace removed.  The whitespace characters
  are those of \<open>str.isspace\<close> in the ASCII range.
\<close>

definition py_isspace :: "char \<Rightarrow> bool" where
  "py_isspace c \<longleftrightarrow>
     c \<in> set [CHR 0x09, CHR 0x0A, CHR 0x0B, CHR 0x0C, CHR 0x0D,
               CHR 0x1C, CHR 0x1D, CHR 0x1E, CHR 0x1F, CHR 0x20]"

definition py_strip :: "string \<Rightarrow> string" where
  "py_strip s = rev (dropWhile py_isspace (rev (dropWhile py_isspace s)))"

text \<open>
  A LangChain \<open>Document\<close>: its text and its metadata dictionary (all keys and
  values of the program's metadata are strings; the dictionary is kept as an association
  list in the order of the literal).
\<close>

record document =
  page_content :: string
  metadata :: "(string \<times> string) list"


section \<open>\<open>metadata_extractor.py\<close>\<close>

subsection \<open>The rows the two catalogue queries return\<close>

text \<open>
  A row of \<open>table_column_query\<close> is
  \<open>(table_schema, table_name, column_name, data_type, column_comment, table_comment)\<close>,
  a row of \<open>view_query\<close> is \<open>(view_schema, view_name, view_definition, view_comment)\<close>.
  The comments are \<open>COALESCE\<close>d to strings by the queries; \<open>view_definition\<close> may be
  SQL \<open>NULL\<close>, which arrives as \<open>None\<close>.
\<close>

type_synonym table_row = "string \<times> string \<times> string \<times> string \<times> string \<times> string"
type_synonym view_row = "string \<times> string \<times> string option \<times> string"

record column_info =
  c_name :: string
  c_type :: string
  c_comment :: string

record table_info =
  t_schema :: string
  t_name :: string
  t_comment :: string
  t_columns :: "column_info list"

text \<open>
  \<open>tables_data\<close> is a Python dictionary keyed by \<open>f"{schema}.{table}"\<close>; dictionaries
  keep insertion order, so it is an association list with distinct keys to which new
  keys are appended.
\<close>

type_synonym tables_data = "(string \<times> table_info) list"

definition table_key :: "string \<Rightarrow> string \<Rightarrow> string" where
  "table_key schema table = schema @ ''.'' @ table"

definition append_column :: "string \<Rightarrow> column_info \<Rightarrow> tables_data \<Rightarrow> tables_data" where
  "append_column k c td =
     map (\<lambda>(k', d). if k' = k then (k', d\<lparr>t_columns := t_columns d @ [c]\<rparr>) else (k', d)) td"

text \<open>One iteration of \<open>for row in result_tables_cols\<close>.\<close>

fun add_row :: "tables_data \<Rightarrow> table_row \<Rightarrow> tables_data" where
  "add_row td (schema, table, column, dtype, col_comment, tbl_comment) =
     (let k = table_key schema table;
          td' = (if k \<notin> fst ` set td
                 then td @ [(k, \<lparr>t_schema = schema, t_name = table,
                                  t_comment = tbl_comment, t_columns = []\<rparr>)]
                 else td)
      in append_column k \<lparr>c_name = column, c_type = dtype, c_comment = col_comment\<rparr> td')"

definition group_rows :: "table_row list \<Rightarrow> tables_data" where
  "group_rows rows = foldl add_row [] rows"

definition render_column :: "column_info \<Rightarrow> string" where
  "render_column col =
     ''  - '' @ c_name col @ '' ('' @ c_type col @ '')''
     @ (if c_comment col \<noteq> [] then '': '' @ c_comment col else [])
     @ NL"

definition table_doc_content :: "table_info \<Rightarrow> string" where
  "table_doc_content d =
     ''Table: '' @ t_name d @ '' (Schema: '' @ t_schema d @ '')'' @ NL
     @ (if t_comment d \<noteq> [] then ''Comment: '' @ t_comment d @ NL else [])
     @ ''Columns:'' @ NL
     @ concat (map render_column (t_columns d))"

definition table_document :: "table_info \<Rightarrow> document" where
  "table_document d =
     \<lparr>page_content = py_strip (table_doc_content d),
      metadata = [(''source_type'', ''table''), (''table_name'', t_name d),
                  (''schema_name'', t_schema d)]\<rparr>"

definition table_documents :: "table_row list \<Rightarrow> document list" where
  "table_documents rows = map (\<lambda>(k, d). table_document d) (group_rows rows)"

text \<open>An f-string renders \<open>None\<close> as the text \<open>None\<close>.\<close>

definition py_format_opt :: "string option \<Rightarrow> string" where
  "py_format_opt v = (case v of None \<Rightarrow> ''None'' | Some s \<Rightarrow> s)"

fun view_doc_content :: "view_row \<Rightarrow> string" where
  "view_doc_content (view_schema, view_name, view_def, view_comment) =
     ''View: '' @ view_name @ '' (Schema: '' @ view_schema @ '')'' @ NL
     @ (if view_comment \<noteq> [] then ''Comment: '' @ view_comment @ NL else [])
     @ ''Definition:'' @ NL @ py_format_opt view_def @ NL"

fun view_document :: "view_row \<Rightarrow> document" where
  "view_document (view_schema, view_name, view_def, view_comment) =
     \<lparr>page_content = py_strip (view_doc_content (view_schema, view_name, view_def, view_comment)),
      metadata = [(''source_type'', ''view''), (''view_name'', view_name),
                  (''schema_name'', view_schema)]\<rparr>"

definition view_documents :: "view_row list \<Rightarrow> document list" where
  "view_documents rows = map view_document rows"

subsection \<open>\<open>extract_metadata\<close>\<close>

text \<open>
  What the database does when \<open>extract_metadata\<close> runs: \<open>engine.connect()\<close> raises or
  gives a connection, and each \<open>connection.execute\<close> raises or gives its rows.
\<close>

record db_env =
  connect_result :: "py_exception option"
  table_query_result :: "py_exception + table_row list"
  view_query_result :: "py_exception + view_row list"

text \<open>
  The two \<open>try\<close> blocks inside \<open>with engine.connect()\<close>: each appends its documents to
  \<open>documents\<close>, and its \<open>except Exception\<close> only logs.
\<close>

definition extract_tables :: "db_env \<Rightarrow> document list \<Rightarrow> document list" where
  "extract_tables db documents =
     (case table_query_result db of
        Inl e \<Rightarrow> documents
      | Inr rows \<Rightarrow> documents @ table_documents rows)"

definition extract_views :: "db_env \<Rightarrow> document list \<Rightarrow> document list" where
  "extract_views db documents =
     (case view_query_result db of
        Inl e \<Rightarrow> documents
      | Inr rows \<Rightarrow> documents @ view_documents rows)"

definition extract_metadata :: "db_env \<Rightarrow> py_exception + document list" where
  "extract_metadata db =
     (case connect_result db of
        Some e \<Rightarrow> Inl e
      | None \<Rightarrow> Inr (extract_views db (extract_tables db [])))"

subsection \<open>\<open>load_schema_documents\<close>\<close>

text \<open>
  \<open>create_engine\<close> and the test connection may raise before \<open>extract_metadata\<close> is
  called; the whole body is inside \<open>try ... except Exception: return []\<close>.
\<close>

record load_env =
  create_engine_result :: "py_exception option"
  test_connect_result :: "py_exception option"
  extract_env :: db_env

definition load_schema_documents_body :: "load_env \<Rightarrow> py_exception + document list" where
  "load_schema_documents_body env =
     (case create_engine_result env of
        Some e \<Rightarrow> Inl e
      | None \<Rightarrow>
         (case test_connect_result env of
            Some e \<Rightarrow> Inl e
          | None \<Rightarrow> extract_metadata (extract_env env)))"

definition load_schema_documents :: "load_env \<Rightarrow> document list" where
  "load_schema_documents env =
     (case load_schema_documents_body env of
        Inl e \<Rightarrow> []
      | Inr schema_docs \<Rightarrow> schema_docs)"


section \<open>\<open>main.py\<close>: start-up\<close>

subsection \<open>Global components and observable effects\<close>

text \<open>
  The module keeps its components in global variables that start as \<open>None\<close>.  For each
  of them the state records whether it has been assigned (the assigned objects are all
  truthy); of the QA chain it also records the \<open>k\<close> of the retriever it was built from.
  The effects of start-up that the properties speak about are kept as a trace: the log
  line that opens an attempt, the call of \<open>add_documents\<close> with its argument, and the
  call of \<open>time.sleep\<close> with its argument.
\<close>

datatype event =
    LogAttempt nat nat
  | AddDocuments "document list"
  | Sleep nat

record qa_chain_handle =
  retriever_k :: nat

record app_state =
  llm :: bool
  embeddings_model :: bool
  db_engine :: bool
  vectorstore :: bool
  qa_chain :: "qa_chain_handle option"
  sql_agent_executor :: bool
  trace :: "event list"

definition initial_state :: app_state where
  "initial_state =
     \<lparr>llm = False, embeddings_model = False, db_engine = False, vectorstore = False,
      qa_chain = None, sql_agent_executor = False, trace = []\<rparr>"

type_synonym 'a raising = "py_exception + 'a"
type_synonym command = "app_state \<Rightarrow> unit raising \<times> app_state"

text \<open>Sequencing of statements: an exception ends the sequence.\<close>

definition and_then :: "unit raising \<times> app_state \<Rightarrow> command \<Rightarrow> unit raising \<times> app_state" where
  "and_then r f = (case r of (Inl e, st) \<Rightarrow> (Inl e, st) | (Inr u, st) \<Rightarrow> f st)"

subsection \<open>What the outside world does during start-up\<close>

record attempt_env =
  schema_db :: load_env
  chroma_init :: "py_exception option"
  chroma_count :: "nat raising"
  chroma_add :: "py_exception option"

record startup_env =
  openai_api_key :: "string option"
  llm_result :: "py_exception option"
  embeddings_result :: "py_exception option"
  from_uri_result :: "py_exception option"
  usable_table_names_result :: "py_exception option"
  attempt_envs :: "nat \<Rightarrow> attempt_env"
  qa_chain_result :: "py_exception option"
  sql_agent_result :: "py_exception option"

subsection \<open>\<open>initialize_rag_components\<close>\<close>

definition max_retries :: nat where
  "max_retries = 5"

definition retry_delay :: nat where
  "retry_delay = 10"

definition placeholder_document :: document where
  "placeholder_document =
     \<lparr>page_content = ''No schema information available.'',
      metadata = [(''source_type'', ''placeholder'')]\<rparr>"

text \<open>Step 0: the API key (\<open>if not openai_api_key\<close> is true for \<open>None\<close> and for the empty string).\<close>

definition load_environment :: "startup_env \<Rightarrow> command" where
  "load_environment env st =
     (if openai_api_key env = None \<or> openai_api_key env = Some []
      then (Inl (PyExc ''ValueError'' ''OPENAI_API_KEY is required.''), st)
      else (Inr (), st))"

text \<open>Step 1: the two model clients; the \<open>except\<close> re-raises.\<close>

definition init_models :: "startup_env \<Rightarrow> command" where
  "init_models env st =
     (case llm_result env of
        Some e \<Rightarrow> (Inl e, st)
      | None \<Rightarrow>
         (case embeddings_result env of
            Some e \<Rightarrow> (Inl e, st\<lparr>llm := True\<rparr>)
          | None \<Rightarrow> (Inr (), st\<lparr>llm := True, embeddings_model := True\<rparr>)))"

text \<open>Step 2: the SQL database handle and the test call on it; the \<open>except\<close> re-raises.\<close>

definition init_database :: "startup_env \<Rightarrow> command" where
  "init_database env st =
     (case from_uri_result env of
        Some e \<Rightarrow> (Inl e, st)
      | None \<Rightarrow>
         (case usable_table_names_result env of
            Some e \<Rightarrow> (Inl e, st\<lparr>db_engine := True\<rparr>)
          | None \<Rightarrow> (Inr (), st\<lparr>db_engine := True\<rparr>)))"

text \<open>
  Step 3, the body of the \<open>try\<close> of one attempt.  The inner \<open>try\<close> around the Chroma
  calls re-raises, so its exceptions reach the handler of the attempt.
\<close>

definition docs_or_placeholder :: "document list \<Rightarrow> document list" where
  "docs_or_placeholder schema_docs =
     (if schema_docs = [] then [placeholder_document] else schema_docs)"

definition try_attempt :: "attempt_env \<Rightarrow> nat \<Rightarrow> command" where
  "try_attempt a attempt st =
     (let st1 = st\<lparr>trace := trace st @ [LogAttempt (attempt + 1) max_retries]\<rparr>;
          schema_docs = docs_or_placeholder (load_schema_documents (schema_db a))
      in case chroma_init a of
           Some e \<Rightarrow> (Inl e, st1)
         | None \<Rightarrow>
            (let st2 = st1\<lparr>vectorstore := True\<rparr>
             in case chroma_count a of
                  Inl e \<Rightarrow> (Inl e, st2)
                | Inr n \<Rightarrow>
                   if n = 0 \<or> True
                   then (let st3 = st2\<lparr>trace := trace st2 @ [AddDocuments schema_docs]\<rparr>
                         in case chroma_add a of
                              Some e \<Rightarrow> (Inl e, st3)
                            | None \<Rightarrow> (Inr (), st3))
                   else (Inr (), st2)))"

text \<open>
  The loop \<open>for attempt in range(max_retries)\<close>: a successful attempt breaks, a failed
  one re-raises when it was the last and sleeps otherwise.
\<close>

fun retry_loop :: "(nat \<Rightarrow> attempt_env) \<Rightarrow> nat list \<Rightarrow> command" where
  "retry_loop envs [] st = (Inr (), st)"
| "retry_loop envs (attempt # rest) st =
     (case try_attempt (envs attempt) attempt st of
        (Inr u, st') \<Rightarrow> (Inr (), st')
      | (Inl e, st') \<Rightarrow>
         if attempt + 1 = max_retries then (Inl e, st')
         else retry_loop envs rest (st'\<lparr>trace := trace st' @ [Sleep retry_delay]\<rparr>))"

definition load_and_index :: "startup_env \<Rightarrow> command" where
  "load_and_index env st = retry_loop (attempt_envs env) [0..<max_retries] st"

text \<open>Step 4: the retriever with \<open>search_kwargs={"k": 3}\<close> and the QA chain.\<close>

definition setup_qa_chain :: "startup_env \<Rightarrow> command" where
  "setup_qa_chain env st =
     (if vectorstore st
      then (case qa_chain_result env of
              Some e \<Rightarrow> (Inl e, st)
            | None \<Rightarrow> (Inr (), st\<lparr>qa_chain := Some \<lparr>retriever_k = 3\<rparr>\<rparr>))
      else (Inl (PyExc ''ConnectionError''
                  ''Failed to initialize vector store. QA chain setup aborted.''), st))"

text \<open>Step 5: the SQL agent.\<close>

definition setup_sql_agent :: "startup_env \<Rightarrow> command" where
  "setup_sql_agent env st =
     (if db_engine st \<and> llm st
      then (case sql_agent_result env of
              Some e \<Rightarrow> (Inl e, st)
            | None \<Rightarrow> (Inr (), st\<lparr>sql_agent_executor := True\<rparr>))
      else (Inl (PyExc ''ConnectionError''
                  ''Failed to initialize DB engine or LLM. SQL Agent setup aborted.''), st))"

definition initialize_rag_components :: "startup_env \<Rightarrow> command" where
  "initialize_rag_components env st =
     and_then (and_then (and_then (and_then (and_then
       (load_environment env st)
       (init_models env))
       (init_database env))
       (load_and_index env))
       (setup_qa_chain env))
       (setup_sql_agent env)"

text \<open>
  \<open>lifespan\<close> runs the initialisation on the fresh globals and re-raises its exception;
  the application serves requests only when the initialisation has returned.
\<close>

definition lifespan_startup :: "startup_env \<Rightarrow> unit raising \<times> app_state" where
  "lifespan_startup env = initialize_rag_components env initial_state"

definition reaches_ready :: "startup_env \<Rightarrow> bool" where
  "reaches_ready env = (case fst (lifespan_startup env) of Inl e \<Rightarrow> False | Inr u \<Rightarrow> True)"

text \<open>The gate of \<open>handle_query\<close>: the three components it insists on.\<close>

definition query_ready :: "app_state \<Rightarrow> bool" where
  "query_ready st \<longleftrightarrow> \<not> (qa_chain st = None \<or> \<not> sql_agent_executor st \<or> \<not> llm st)"

text \<open>The trace read back: attempts opened, arguments of the sleeps, batches handed to the index.\<close>

fun attempts_logged :: "event list \<Rightarrow> nat" where
  "attempts_logged [] = 0"
| "attempts_logged (LogAttempt i n # es) = Suc (attempts_logged es)"
| "attempts_logged (e # es) = attempts_logged es"

fun sleeps :: "event list \<Rightarrow> nat list" where
  "sleeps [] = []"
| "sleeps (Sleep d # es) = d # sleeps es"
| "sleeps (e # es) = sleeps es"

fun indexed_batches :: "event list \<Rightarrow> document list list" where
  "indexed_batches [] = []"
| "indexed_batches (AddDocuments ds # es) = ds # indexed_batches es"
| "indexed_batches (e # es) = indexed_batches es"


section \<open>\<open>main.py\<close>: the health endpoint\<close>

text \<open>
  The names bound at module level of \<open>main.py\<close>: its imports (lines 1 to 16), its
  assignments, classes and functions.  A name used in a function body that is neither
  local nor in this list (nor a builtin) raises \<open>NameError\<close> when it is evaluated.
\<close>

definition main_module_names :: "string list" where
  "main_module_names =
     [''os'', ''logging'', ''FastAPI'', ''HTTPException'', ''Depends'', ''status'',
      ''BaseModel'', ''asynccontextmanager'', ''List'', ''Optional'', ''Dict'', ''Any'',
      ''OpenAIEmbeddings'', ''ChatOpenAI'', ''Chroma'', ''RetrievalQA'', ''SQLDatabase'',
      ''SQLDatabaseToolkit'', ''create_sql_agent'', ''load_schema_documents'',
      ''get_db_connection_url'', ''Document'', ''logger'', ''db_engine'', ''vectorstore'',
      ''qa_chain'', ''sql_agent_executor'', ''llm'', ''embeddings_model'', ''QueryRequest'',
      ''QueryResponse'', ''HealthCheckResponse'', ''initialize_rag_components'',
      ''lifespan'', ''app'', ''health_check'', ''handle_query'']"

definition lookup_name :: "string list \<Rightarrow> string \<Rightarrow> unit raising" where
  "lookup_name names n =
     (if n \<in> set names then Inr ()
      else Inl (PyExc ''NameError'' (''name '' @ [CHR 0x27] @ n @ [CHR 0x27] @ '' is not defined'')))"

text \<open>What the database and the vector store do when they are probed.\<close>

record health_env =
  engine_connect :: "py_exception option"
  select_1 :: "py_exception option"
  heartbeat :: "py_exception option"

record health_check_response =
  status :: string
  services :: "(string \<times> string) list"

text \<open>
  The body of the first \<open>try\<close>: \<open>with db_engine.engine.connect() as connection:
  connection.execute(text("SELECT 1"))\<close>.  The connection is opened, then the argument
  \<open>text("SELECT 1")\<close> is evaluated, which looks the name \<open>text\<close> up, then the statement
  is executed.
\<close>

definition db_probe :: "string list \<Rightarrow> health_env \<Rightarrow> unit raising" where
  "db_probe names env =
     (case engine_connect env of
        Some e \<Rightarrow> Inl e
      | None \<Rightarrow>
         (case lookup_name names ''text'' of
            Inl e \<Rightarrow> Inl e
          | Inr u \<Rightarrow> (case select_1 env of Some e \<Rightarrow> Inl e | None \<Rightarrow> Inr ())))"

definition chroma_probe :: "health_env \<Rightarrow> unit raising" where
  "chroma_probe env = (case heartbeat env of Some e \<Rightarrow> Inl e | None \<Rightarrow> Inr ())"

definition initialized_text :: "bool \<Rightarrow> string" where
  "initialized_text b = (if b then ''Initialized'' else ''Not Initialized'')"

text \<open>
  \<open>health_check\<close>, with the module's names as a parameter.  (\<open>db_engine.engine\<close> is the
  engine the handle was built around and \<open>isinstance(vectorstore, Chroma)\<close> holds for the
  only object ever assigned, so both tests reduce to the global being set.)
\<close>

definition health_check_in :: "string list \<Rightarrow> app_state \<Rightarrow> health_env \<Rightarrow> health_check_response" where
  "health_check_in names st env =
     (let services_status =
            [(''llm'', initialized_text (llm st)),
             (''embeddings_model'', initialized_text (embeddings_model st)),
             (''sql_database_engine'', initialized_text (db_engine st)),
             (''vector_store'', initialized_text (vectorstore st)),
             (''qa_chain'', initialized_text (qa_chain st \<noteq> None)),
             (''sql_agent_executor'', initialized_text (sql_agent_executor st))];
          (db_ok, db_text) =
            (if db_engine st
             then (case db_probe names env of
                     Inr u \<Rightarrow> (True, ''OK'')
                   | Inl e \<Rightarrow> (False, ''Error: '' @ exc_str e))
             else (False, ''Not Initialized''));
          (chroma_ok, chroma_text) =
            (if vectorstore st
             then (case chroma_probe env of
                     Inr u \<Rightarrow> (True, ''OK'')
                   | Inl e \<Rightarrow> (False, ''Error: '' @ exc_str e))
             else (False, ''Not Initialized or not Chroma''));
          services_status = services_status
            @ [(''postgresql_connection'', db_text), (''chromadb_connection'', chroma_text)];
          components = [llm st, embeddings_model st, db_engine st, vectorstore st,
                        qa_chain st \<noteq> None, sql_agent_executor st];
          app_status =
            (if \<not> list_all id (components @ [db_ok, chroma_ok])
             then (if \<not> list_ex id components then ''error'' else ''degraded'')
             else ''ok'')
      in \<lparr>status = app_status, services = services_status\<rparr>)"

definition health_check :: "app_state \<Rightarrow> health_env \<Rightarrow> health_check_response" where
  "health_check = health_check_in main_module_names"


section \<open>\<open>main.py\<close>: the query endpoint\<close>

subsection \<open>Values exchanged with the QA chain and the SQL agent\<close>

text \<open>
  The QA chain answers with a dictionary that may hold \<open>source_documents\<close>; the agent
  answers with a dictionary that may hold \<open>output\<close> (field \<open>agent_output\<close>) and \<open>intermediate_steps\<close>.  A step is
  a pair whose first component is the agent's action: \<open>tool\<close> and \<open>log\<close> are read behind
  \<open>hasattr\<close> tests and so are optional, \<open>tool_input\<close> is the string that accompanies
  \<open>tool\<close>.
\<close>

record qa_result =
  source_documents :: "document list option"

record agent_action =
  tool :: "string option"
  tool_input :: string
  log :: "string option"

type_synonym agent_step = "agent_action \<times> string"

record agent_response =
  agent_output :: "string option"
  intermediate_steps :: "agent_step list option"

record query_env =
  qa_chain_ainvoke :: "nat \<Rightarrow> string \<Rightarrow> qa_result raising"
  agent_ainvoke :: "string \<Rightarrow> agent_response raising"

record query_response =
  natural_language_query :: string
  sql_query :: "string option"
  result :: "string option"
  context_from_vector_db :: "string option"
  error :: "string option"

datatype http_exception = HTTPException nat string

subsection \<open>Context retrieval\<close>

definition context_separator :: string where
  "context_separator = NL @ ''---'' @ NL"

definition no_context :: string where
  "no_context = ''No context retrieved.''"

definition retrieval_error_context :: "py_exception \<Rightarrow> string" where
  "retrieval_error_context e =
     ''Error retrieving context: '' @ exc_str e @ ''. Proceeding without schema context.''"

definition retrieve_context :: "qa_result raising \<Rightarrow> string" where
  "retrieve_context r =
     (case r of
        Inl e \<Rightarrow> retrieval_error_context e
      | Inr qa \<Rightarrow>
         (let docs = (case source_documents qa of None \<Rightarrow> [] | Some ds \<Rightarrow> ds)
          in if docs \<noteq> [] then py_join context_separator (map page_content docs)
             else no_context))"

definition prompt_for_sql_agent :: "string \<Rightarrow> string \<Rightarrow> string" where
  "prompt_for_sql_agent context_docs_str natural_query =
     ''Based on the following potentially relevant schema information:'' @ NL
     @ ''--- SCHEMA CONTEXT START ---'' @ NL @ context_docs_str @ NL
     @ ''--- SCHEMA CONTEXT END ---'' @ NL @ NL
     @ ''User query: '' @ natural_query @ NL @ NL
     @ ''Generate a SQL query to answer the user query. Then execute it and return the result. ''
     @ ''If the query asks for something not answerable by SQL or the schema, explain why.''"

subsection \<open>Best-effort extraction of the SQL from the agent's steps\<close>

definition sql_tool_name :: string where
  "sql_tool_name = ''sql_db_query''"

definition sql_not_extracted :: string where
  "sql_not_extracted = ''SQL query not explicitly extracted from agent steps.''"

definition invoking_marker :: string where
  "invoking_marker = ''Invoking '' @ [CHR 0x22] @ ''sql_db_query'' @ [CHR 0x22]"

definition with_marker :: string where
  "with_marker = ''with `''"

definition backtick :: string where
  "backtick = [CHR 0x60]"

text \<open>
  The log branch of one step: \<open>Some sql\<close> when \<open>generated_sql\<close> is assigned (the loop
  breaks), \<open>None\<close> when the test fails or \<open>IndexError\<close> is caught (the loop goes on).
\<close>

definition sql_from_log :: "string \<Rightarrow> string option" where
  "sql_from_log log_entry =
     (if py_contains invoking_marker log_entry \<and> py_contains with_marker log_entry
      then (case py_index (py_split with_marker log_entry) 1 of
              None \<Rightarrow> None
            | Some t \<Rightarrow> py_index (py_split backtick t) 0)
      else None)"

definition tool_matches :: "agent_step \<Rightarrow> bool" where
  "tool_matches step \<longleftrightarrow> tool (fst step) = Some sql_tool_name"

fun scan_steps :: "agent_step list \<Rightarrow> string \<Rightarrow> string" where
  "scan_steps [] generated_sql = generated_sql"
| "scan_steps (step # rest) generated_sql =
     (if tool_matches step then tool_input (fst step)
      else (case log (fst step) of
              None \<Rightarrow> scan_steps rest generated_sql
            | Some log_entry \<Rightarrow>
               (case sql_from_log log_entry of
                  Some sql \<Rightarrow> sql
                | None \<Rightarrow> scan_steps rest generated_sql)))"

definition extract_generated_sql :: "agent_response \<Rightarrow> string" where
  "extract_generated_sql agent_response =
     (case intermediate_steps agent_response of
        None \<Rightarrow> sql_not_extracted
      | Some steps \<Rightarrow> scan_steps steps sql_not_extracted)"

subsection \<open>\<open>handle_query\<close>\<close>

definition service_unavailable :: http_exception where
  "service_unavailable =
     HTTPException 503 ''Service not fully initialized. Please try again later.''"

definition run_sql_agent :: "query_env \<Rightarrow> string \<Rightarrow> string \<Rightarrow> query_response" where
  "run_sql_agent env natural_query context_docs_str =
     (case agent_ainvoke env (prompt_for_sql_agent context_docs_str natural_query) of
        Inr agent_response \<Rightarrow>
          (let generated_sql = extract_generated_sql agent_response;
               final_answer = (case agent_output agent_response of
                                 None \<Rightarrow> ''No output from SQL agent.''
                               | Some out \<Rightarrow> out)
           in \<lparr>natural_language_query = natural_query,
               sql_query = Some generated_sql,
               result = Some final_answer,
               context_from_vector_db = Some context_docs_str,
               error = None\<rparr>)
      | Inl e \<Rightarrow>
          \<lparr>natural_language_query = natural_query,
           sql_query = None,
           result = None,
           context_from_vector_db = Some context_docs_str,
           error = Some (''Error in SQL agent: '' @ exc_str e)\<rparr>)"

definition handle_query :: "app_state \<Rightarrow> query_env \<Rightarrow> string \<Rightarrow> http_exception + query_response" where
  "handle_query st env natural_query =
     (case qa_chain st of
        None \<Rightarrow> Inl service_unavailable
      | Some chain \<Rightarrow>
         if \<not> sql_agent_executor st \<or> \<not> llm st then Inl service_unavailable
         else Inr (run_sql_agent env natural_query
                     (retrieve_context (qa_chain_ainvoke env (retriever_k chain) natural_query))))"

section \<open>The document index\<close>

text \<open>
  Modelled from the spec: the Document Index's \<open>query(text, k)\<close> (section 4.2), which
  "embeds the query text, performs nearest-neighbor search, returns the k closest by
  similarity (higher = more similar)".  The vector store and the embedding provider are
  external services; nothing of them is in the two source files.  The similarity of a
  stored document to a query text is a parameter with values in any linear order; the
  stored documents are ranked by descending similarity (equally similar ones in their
  stored order, so the result is determined) and the first \<open>k\<close> are returned.  The QA
  chain built on the index returns these as its \<open>source_documents\<close>.
\<close>

fun insert_ranked :: "('d \<Rightarrow> 's::linorder) \<Rightarrow> 'd \<Rightarrow> 'd list \<Rightarrow> 'd list" where
  "insert_ranked score d [] = [d]"
| "insert_ranked score d (x # xs) =
     (if score x < score d then d # x # xs else x # insert_ranked score d xs)"

definition rank_by_similarity :: "('d \<Rightarrow> 's::linorder) \<Rightarrow> 'd list \<Rightarrow> 'd list" where
  "rank_by_similarity score ds = foldr (insert_ranked score) ds []"

definition index_query ::
  "(string \<Rightarrow> document \<Rightarrow> 's::linorder) \<Rightarrow> document list \<Rightarrow> string \<Rightarrow> nat \<Rightarrow> document list" where
  "index_query similarity idx query_text k = take k (rank_by_similarity (similarity query_text) idx)"

definition index_qa_chain ::
  "(string \<Rightarrow> document \<Rightarrow> 's::linorder) \<Rightarrow> document list \<Rightarrow> nat \<Rightarrow> string \<Rightarrow> qa_result raising" where
  "index_qa_chain similarity idx k query_text =
     Inr \<lparr>source_documents = Some (index_query similarity idx query_text k)\<rparr>"


section \<open>Notions used to state the properties\<close>

text \<open>The exception that ends the \<open>try\<close> body of an attempt, if one does.\<close>

definition attempt_error :: "attempt_env \<Rightarrow> py_exception option" where
  "attempt_error a =
     (case chroma_init a of
        Some e \<Rightarrow> Some e
      | None \<Rightarrow> (case chroma_count a of Inl e \<Rightarrow> Some e | Inr n \<Rightarrow> chroma_add a))"

text \<open>The batches an attempt hands to \<open>add_documents\<close>.\<close>

definition attempt_batches :: "attempt_env \<Rightarrow> document list list" where
  "attempt_batches a =
     (case chroma_init a of
        Some e \<Rightarrow> []
      | None \<Rightarrow>
         (case chroma_count a of
            Inl e \<Rightarrow> []
          | Inr n \<Rightarrow> [docs_or_placeholder (load_schema_documents (schema_db a))]))"

text \<open>Steps 0 to 2 of the initialisation meet no failure.\<close>

definition services_available :: "startup_env \<Rightarrow> bool" where
  "services_available env \<longleftrightarrow>
     openai_api_key env \<noteq> None \<and> openai_api_key env \<noteq> Some []
     \<and> llm_result env = None \<and> embeddings_result env = None
     \<and> from_uri_result env = None \<and> usable_table_names_result env = None"

definition steps_0_to_2 :: "startup_env \<Rightarrow> command" where
  "steps_0_to_2 env st =
     and_then (and_then (load_environment env st) (init_models env)) (init_database env)"

text \<open>All six components are set; none of them is.\<close>

definition all_components :: "app_state \<Rightarrow> bool" where
  "all_components st \<longleftrightarrow>
     llm st \<and> embeddings_model st \<and> db_engine st \<and> vectorstore st
     \<and> qa_chain st \<noteq> None \<and> sql_agent_executor st"

definition no_component :: "app_state \<Rightarrow> bool" where
  "no_component st \<longleftrightarrow>
     \<not> llm st \<and> \<not> embeddings_model st \<and> \<not> db_engine st \<and> \<not> vectorstore st
     \<and> qa_chain st = None \<and> \<not> sql_agent_executor st"



text \<open>A list is ranked by descending score.\<close>

definition ranked_descending :: "('d \<Rightarrow> 's::linorder) \<Rightarrow> 'd list \<Rightarrow> bool" where
  "ranked_descending score ds = sorted_wrt (\<lambda>d d'. score d' \<le> score d) ds"

text \<open>The tables the rows of the table/column query speak of: the distinct pairs of schema and table.\<close>

fun row_object :: "table_row \<Rightarrow> string \<times> string" where
  "row_object (schema, table, column, dtype, col_comment, tbl_comment) = (schema, table)"

definition table_objects :: "table_row list \<Rightarrow> (string \<times> string) list" where
  "table_objects rows = remdups (map row_object rows)"


section \<open>Concrete inputs\<close>

text \<open>
  The sample schema of the comments at the end of \<open>metadata_extractor.py\<close>, as the
  rows the two queries return for it, and an exception as a driver raises it.
\<close>

definition sample_exception :: py_exception where
  "sample_exception = PyExc ''OperationalError'' ''connection refused''"

definition sample_table_rows :: "table_row list" where
  "sample_table_rows =
     [(''public'', ''invoices'', ''invoice_id'', ''integer'', [],
         ''Stores invoice data related to contracts.''),
      (''public'', ''invoices'', ''amount'', ''numeric'', ''The total amount of the invoice.'',
         ''Stores invoice data related to contracts.''),
      (''sales'', ''contracts'', ''contract_id'', ''integer'',
         ''Unique identifier for the contract.'', ''Stores information about sales contracts.''),
      (''sales'', ''contracts'', ''status'', ''character varying'', [],
         ''Stores information about sales contracts.'')]"

definition sample_view_rows :: "view_row list" where
  "sample_view_rows =
     [(''sales'', ''active_contracts_view'',
       Some ''SELECT contract_id FROM sales.contracts WHERE status = 1;'',
       ''A view showing currently active contracts.'')]"


text \<open>Databases, schema loadings and attempts: reachable, empty, unreachable, vector store down.\<close>

definition sample_db :: db_env where
  "sample_db =
     \<lparr>connect_result = None,
      table_query_result = Inr sample_table_rows,
      view_query_result = Inr sample_view_rows\<rparr>"

definition empty_db :: db_env where
  "empty_db = \<lparr>connect_result = None, table_query_result = Inr [], view_query_result = Inr []\<rparr>"

definition unreachable_db_load :: load_env where
  "unreachable_db_load =
     \<lparr>create_engine_result = None,
      test_connect_result = Some sample_exception,
      extract_env = sample_db\<lparr>connect_result := Some sample_exception\<rparr>\<rparr>"

definition empty_db_load :: load_env where
  "empty_db_load =
     \<lparr>create_engine_result = None, test_connect_result = None, extract_env = empty_db\<rparr>"


definition db_down_attempt :: attempt_env where
  "db_down_attempt =
     \<lparr>schema_db = unreachable_db_load,
      chroma_init = None,
      chroma_count = Inr 0,
      chroma_add = None\<rparr>"

definition empty_db_attempt :: attempt_env where
  "empty_db_attempt =
     \<lparr>schema_db = empty_db_load,
      chroma_init = None,
      chroma_count = Inr 7,
      chroma_add = None\<rparr>"

definition startup_with :: "(nat \<Rightarrow> attempt_env) \<Rightarrow> startup_env" where
  "startup_with envs =
     \<lparr>openai_api_key = Some ''sk-test'',
      llm_result = None,
      embeddings_result = None,
      from_uri_result = None,
      usable_table_names_result = None,
      attempt_envs = envs,
      qa_chain_result = None,
      sql_agent_result = None\<rparr>"


text \<open>A question, the state after a successful start-up, and what chain and agent may do.\<close>

definition sample_question :: string where
  "sample_question = ''How many active contracts are there?''"

definition ready_state :: app_state where
  "ready_state =
     \<lparr>llm = True, embeddings_model = True, db_engine = True, vectorstore = True,
      qa_chain = Some \<lparr>retriever_k = 3\<rparr>, sql_agent_executor = True, trace = []\<rparr>"

definition sample_agent_response :: agent_response where
  "sample_agent_response =
     \<lparr>agent_output = Some ''There are 3 active contracts.'',
      intermediate_steps = Some
        [(\<lparr>tool = Some ''sql_db_list_tables'', tool_input = [], log = Some ''listing tables''\<rparr>,
          ''contracts, invoices''),
         (\<lparr>tool = Some ''sql_db_query'',
           tool_input = ''SELECT COUNT(*) FROM sales.contracts WHERE status = 1'',
           log = Some ''running the query''\<rparr>,
          ''[(3,)]'')]\<rparr>"



definition healthy_env :: health_env where
  "healthy_env = \<lparr>engine_connect = None, select_1 = None, heartbeat = None\<rparr>"







text \<open>A small index whose similarity to any query is the length of the content.\<close>

definition text_doc :: "string \<Rightarrow> document" where
  "text_doc s = \<lparr>page_content = s, metadata = []\<rparr>"

definition sample_index :: "document list" where
  "sample_index = [text_doc ''a'', text_doc ''bbb'', text_doc ''cc'', text_doc ''dddd'']"

definition content_length :: "string \<Rightarrow> document \<Rightarrow> nat" where
  "content_length query_text d = length (page_content d)"

definition index_env :: query_env where
  "index_env =
     \<lparr>qa_chain_ainvoke = index_qa_chain content_length sample_index,
      agent_ainvoke = (\<lambda>p. Inr sample_agent_response)\<rparr>"

text \<open>Two one-column tables, \<open>"a"."b.c"\<close> and \<open>"a.b"."c"\<close>, in the order of the query.\<close>

definition colliding_rows :: "table_row list" where
  "colliding_rows =
     [(''a'', ''b.c'', ''x'', ''integer'', [], []),
      (''a.b'', ''c'', ''y'', ''integer'', [], [])]"

definition colliding_db :: db_env where
  "colliding_db =
     \<lparr>connect_result = None,
      table_query_result = Inr colliding_rows,
      view_query_result = Inr []\<rparr>"


section \<open>Properties of schema extraction\<close>






section \<open>Properties of start-up\<close>

lemma and_then_Inl [simp]: "and_then (Inl e, st) f = (Inl e, st)"
  by (simp add: and_then_def)

lemma and_then_Inr [simp]: "and_then (Inr u, st) f = f st"
  by (simp add: and_then_def)

lemma attempts_logged_append [simp]:
  "attempts_logged (xs @ ys) = attempts_logged xs + attempts_logged ys"
  by (induction xs rule: attempts_logged.induct) simp_all

lemma sleeps_append [simp]: "sleeps (xs @ ys) = sleeps xs @ sleeps ys"
  by (induction xs rule: sleeps.induct) simp_all

lemma indexed_batches_append [simp]:
  "indexed_batches (xs @ ys) = indexed_batches xs @ indexed_batches ys"
  by (induction xs rule: indexed_batches.induct) simp_all


lemma try_attempt_trace:
  "trace (snd (try_attempt a i st)) =
     trace st @ LogAttempt (i + 1) max_retries # map AddDocuments (attempt_batches a)"
  by (simp add: try_attempt_def attempt_batches_def Let_def split: option.splits sum.splits)





lemma events_of_batches [simp]:
  "attempts_logged (map AddDocuments bs) = 0"
  "sleeps (map AddDocuments bs) = []"
  "indexed_batches (map AddDocuments bs) = bs"
  by (induction bs) simp_all

lemma docs_or_placeholder_nonempty: "docs_or_placeholder ds \<noteq> []"
  by (simp add: docs_or_placeholder_def)

lemma attempt_batches_nonempty: "ds \<in> set (attempt_batches a) \<Longrightarrow> ds \<noteq> []"
  by (auto simp: attempt_batches_def docs_or_placeholder_nonempty split: option.splits sum.splits)

lemma upt_max_retries: "i < max_retries \<Longrightarrow> [i..<max_retries] = i # [Suc i..<max_retries]"
  by (simp add: upt_conv_Cons)

text \<open>The events the loop adds when it runs the attempts \<open>i, i + 1, ...\<close>.\<close>

lemma retry_loop_events:
  "i < max_retries \<Longrightarrow>
     \<exists>evs. trace (snd (retry_loop envs [i..<max_retries] st)) = trace st @ evs
       \<and> 1 \<le> attempts_logged evs \<and> attempts_logged evs \<le> max_retries - i
       \<and> sleeps evs = replicate (attempts_logged evs - 1) retry_delay
       \<and> (\<forall>ds \<in> set (indexed_batches evs). ds \<noteq> [])"
proof (induction "max_retries - i" arbitrary: i st)
  case 0
  then show ?case by simp
next
  case (Suc n)
  let ?a = "envs i"
  let ?ev = "LogAttempt (i + 1) max_retries # map AddDocuments (attempt_batches ?a)"
  obtain r st' where t: "try_attempt ?a i st = (r, st')"
    by (cases "try_attempt ?a i st")
  have tr: "trace st' = trace st @ ?ev"
    using try_attempt_trace [of ?a i st] t by simp
  have ne: "\<forall>ds \<in> set (indexed_batches ?ev). ds \<noteq> []"
    using attempt_batches_nonempty [of _ ?a] by simp
  have one: "attempts_logged ?ev = 1" "sleeps ?ev = []"
    by simp_all
  have list: "[i..<max_retries] = i # [Suc i..<max_retries]"
    using Suc.prems by (rule upt_max_retries)
  show ?case
  proof (cases "(\<exists>u. r = Inr u) \<or> i + 1 = max_retries")
    case True
    then have "snd (retry_loop envs [i..<max_retries] st) = st'"
      using t list by (cases r) auto
    then show ?thesis
      using tr ne one Suc.prems by (intro exI [of _ ?ev]) simp
  next
    case False
    then obtain e where r: "r = Inl e" and lt: "Suc i < max_retries"
      using Suc.prems by (cases r) auto
    let ?st = "st'\<lparr>trace := trace st' @ [Sleep retry_delay]\<rparr>"
    have step: "retry_loop envs [i..<max_retries] st = retry_loop envs [Suc i..<max_retries] ?st"
      using t list r False by simp
    from Suc.hyps(2) lt have n: "n = max_retries - Suc i" by simp
    from Suc.hyps(1) [OF n lt, of ?st]
    obtain evs where evs:
      "trace (snd (retry_loop envs [Suc i..<max_retries] ?st)) = trace ?st @ evs"
      "1 \<le> attempts_logged evs" "attempts_logged evs \<le> max_retries - Suc i"
      "sleeps evs = replicate (attempts_logged evs - 1) retry_delay"
      "\<forall>ds \<in> set (indexed_batches evs). ds \<noteq> []"
      by blast
    let ?all = "?ev @ Sleep retry_delay # evs"
    have a: "trace (snd (retry_loop envs [i..<max_retries] st)) = trace st @ ?all"
      using step evs(1) tr by simp
    have b: "attempts_logged ?all = Suc (attempts_logged evs)"
      by simp
    have c: "sleeps ?all = replicate (attempts_logged ?all - 1) retry_delay"
      using evs(2,4) by (cases "attempts_logged evs") simp_all
    have d: "\<forall>ds \<in> set (indexed_batches ?all). ds \<noteq> []"
      using evs(5) attempt_batches_nonempty [of _ ?a] by auto
    have e: "1 \<le> attempts_logged ?all \<and> attempts_logged ?all \<le> max_retries - i"
      using evs(3) lt by simp
    show ?thesis
      using a c d e by blast
  qed
qed



lemma initialize_rag_components_steps:
  "initialize_rag_components env st =
     and_then (and_then (and_then (steps_0_to_2 env st) (load_and_index env))
       (setup_qa_chain env)) (setup_sql_agent env)"
  by (simp add: initialize_rag_components_def steps_0_to_2_def)

lemma steps_0_to_2_ok:
  "services_available env \<Longrightarrow>
     steps_0_to_2 env st = (Inr (), st\<lparr>llm := True, embeddings_model := True, db_engine := True\<rparr>)"
  by (auto simp: services_available_def steps_0_to_2_def load_environment_def
        init_models_def init_database_def)

lemma steps_0_to_2_keeps:
  "trace (snd (steps_0_to_2 env st)) = trace st"
  "qa_chain (snd (steps_0_to_2 env st)) = qa_chain st"
  "sql_agent_executor (snd (steps_0_to_2 env st)) = sql_agent_executor st"
  by (auto simp: steps_0_to_2_def load_environment_def init_models_def init_database_def
        split: option.splits)

lemma steps_0_to_2_sets:
  "fst (steps_0_to_2 env st) = Inr u \<Longrightarrow>
     llm (snd (steps_0_to_2 env st)) \<and> db_engine (snd (steps_0_to_2 env st))"
  by (auto simp: steps_0_to_2_def load_environment_def init_models_def init_database_def
        split: option.splits if_splits)

lemma setup_keeps_trace:
  "trace (snd (setup_qa_chain env st)) = trace st"
  "trace (snd (setup_sql_agent env st)) = trace st"
  by (auto simp: setup_qa_chain_def setup_sql_agent_def split: option.splits)

lemma and_then_trace:
  assumes "\<And>s. trace (snd (f s)) = trace s"
  shows "trace (snd (and_then r f)) = trace (snd r)"
proof (cases r)
  case (Pair x s)
  then show ?thesis using assms [of s] by (cases x) simp_all
qed

lemma initialize_trace:
  "trace (snd (initialize_rag_components env st)) =
     trace (snd (and_then (steps_0_to_2 env st) (load_and_index env)))"
  by (simp add: initialize_rag_components_steps and_then_trace setup_keeps_trace)

lemma load_and_index_events:
  "\<exists>evs. trace (snd (load_and_index env st)) = trace st @ evs
     \<and> 1 \<le> attempts_logged evs \<and> attempts_logged evs \<le> max_retries
     \<and> sleeps evs = replicate (attempts_logged evs - 1) retry_delay
     \<and> (\<forall>ds \<in> set (indexed_batches evs). ds \<noteq> [])"
proof -
  have "0 < max_retries" by (simp add: max_retries_def)
  from retry_loop_events [OF this, of "attempt_envs env" st]
  show ?thesis by (simp add: load_and_index_def)
qed

lemma lifespan_trace:
  "trace (snd (lifespan_startup env)) = []
   \<or> trace (snd (lifespan_startup env)) = trace (snd (load_and_index env (snd (steps_0_to_2 env initial_state))))"
proof (cases "steps_0_to_2 env initial_state")
  case (Pair r s)
  have "trace s = []"
    using steps_0_to_2_keeps(1) [of env initial_state] Pair by (simp add: initial_state_def)
  then show ?thesis
    using Pair by (cases r) (simp_all add: lifespan_startup_def initialize_trace)
qed

lemma lifespan_batches_nonempty:
  "ds \<in> set (indexed_batches (trace (snd (lifespan_startup env)))) \<Longrightarrow> ds \<noteq> []"
proof -
  assume m: "ds \<in> set (indexed_batches (trace (snd (lifespan_startup env))))"
  let ?s = "snd (steps_0_to_2 env initial_state)"
  have e: "trace ?s = []"
    using steps_0_to_2_keeps(1) [of env initial_state] by (simp add: initial_state_def)
  obtain evs where evs: "trace (snd (load_and_index env ?s)) = trace ?s @ evs"
    "\<forall>ds \<in> set (indexed_batches evs). ds \<noteq> []"
    using load_and_index_events [of env ?s] by blast
  from lifespan_trace [of env] m evs e show ?thesis by auto
qed




lemma try_attempt_ok:
  "attempt_error a = None \<Longrightarrow>
     try_attempt a i st =
       (Inr (), st\<lparr>vectorstore := True,
                   trace := trace st @ [LogAttempt (i + 1) max_retries,
                     AddDocuments (docs_or_placeholder (load_schema_documents (schema_db a)))]\<rparr>)"
  by (simp add: try_attempt_def attempt_error_def Let_def split: option.splits sum.splits)

lemma load_schema_documents_swallows:
  "load_schema_documents_body lenv = Inl e \<Longrightarrow> load_schema_documents lenv = []"
  by (simp add: load_schema_documents_def)

lemma load_schema_documents_no_connection:
  "create_engine_result lenv = Some e \<or> test_connect_result lenv = Some e
     \<or> connect_result (extract_env lenv) = Some e \<Longrightarrow> load_schema_documents lenv = []"
  by (auto simp: load_schema_documents_def load_schema_documents_body_def extract_metadata_def
        split: option.splits sum.splits)

lemma first_attempt_succeeds:
  assumes "services_available env" and "attempt_error (attempt_envs env 0) = None"
    and "qa_chain_result env = None" and "sql_agent_result env = None"
  shows "lifespan_startup env =
     (Inr (), \<lparr>llm = True, embeddings_model = True, db_engine = True, vectorstore = True,
               qa_chain = Some \<lparr>retriever_k = 3\<rparr>, sql_agent_executor = True,
               trace = [LogAttempt 1 max_retries,
                 AddDocuments (docs_or_placeholder
                   (load_schema_documents (schema_db (attempt_envs env 0))))]\<rparr>)"
proof -
  have l: "[0..<max_retries] = 0 # [Suc 0..<max_retries]"
    by (rule upt_max_retries) (simp add: max_retries_def)
  show ?thesis
    using assms
    by (simp add: lifespan_startup_def initialize_rag_components_steps steps_0_to_2_ok
          load_and_index_def l try_attempt_ok setup_qa_chain_def setup_sql_agent_def
          initial_state_def)
qed

text \<open>
  C4.  Whatever raises inside \<open>load_schema_documents\<close> (creating the engine, the test
  connection, the connection of \<open>extract_metadata\<close>) is swallowed and the function returns
  the empty list.  So when steps 0 to 2 succeed, the schema loading of the first attempt
  raises inside, the vector store accepts the batch and the chain and the agent can be
  built, the initialisation returns on the first attempt without sleeping, the only batch
  indexed is the single placeholder document, and the query endpoint is ready.
\<close>

theorem unreachable_database_still_ready:
  "(load_schema_documents_body lenv = Inl e \<longrightarrow> load_schema_documents lenv = [])
   \<and> (create_engine_result lenv = Some e \<or> test_connect_result lenv = Some e
        \<or> connect_result (extract_env lenv) = Some e \<longrightarrow> load_schema_documents lenv = [])
   \<and> (services_available env
        \<and> load_schema_documents_body (schema_db (attempt_envs env 0)) = Inl e'
        \<and> attempt_error (attempt_envs env 0) = None
        \<and> qa_chain_result env = None \<and> sql_agent_result env = None \<longrightarrow>
          reaches_ready env \<and> query_ready (snd (lifespan_startup env))
          \<and> trace (snd (lifespan_startup env))
              = [LogAttempt 1 5, AddDocuments [placeholder_document]])"
proof (intro conjI impI)
  assume "load_schema_documents_body lenv = Inl e"
  then show "load_schema_documents lenv = []" by (rule load_schema_documents_swallows)
next
  assume "create_engine_result lenv = Some e \<or> test_connect_result lenv = Some e
        \<or> connect_result (extract_env lenv) = Some e"
  then show "load_schema_documents lenv = []" by (rule load_schema_documents_no_connection)
next
  assume a: "services_available env
        \<and> load_schema_documents_body (schema_db (attempt_envs env 0)) = Inl e'
        \<and> attempt_error (attempt_envs env 0) = None
        \<and> qa_chain_result env = None \<and> sql_agent_result env = None"
  then have d: "load_schema_documents (schema_db (attempt_envs env 0)) = []"
    by (simp add: load_schema_documents_swallows)
  have s: "lifespan_startup env =
     (Inr (), \<lparr>llm = True, embeddings_model = True, db_engine = True, vectorstore = True,
               qa_chain = Some \<lparr>retriever_k = 3\<rparr>, sql_agent_executor = True,
               trace = [LogAttempt 1 max_retries, AddDocuments [placeholder_document]]\<rparr>)"
    using first_attempt_succeeds [of env] a d by (simp add: docs_or_placeholder_def)
  show "reaches_ready env" using s by (simp add: reaches_ready_def)
  show "query_ready (snd (lifespan_startup env))" using s by (simp add: query_ready_def)
  show "trace (snd (lifespan_startup env)) = [LogAttempt 1 5, AddDocuments [placeholder_document]]"
    using s by (simp add: max_retries_def)
qed

theorem unreachable_database_still_ready_witness:
  "services_available (startup_with (\<lambda>i. db_down_attempt))
   \<and> load_schema_documents_body unreachable_db_load = Inl sample_exception
   \<and> load_schema_documents unreachable_db_load = []
   \<and> reaches_ready (startup_with (\<lambda>i. db_down_attempt))
   \<and> trace (snd (lifespan_startup (startup_with (\<lambda>i. db_down_attempt))))
       = [LogAttempt 1 5, AddDocuments [placeholder_document]]"
  using unreachable_database_still_ready
          [of unreachable_db_load sample_exception "startup_with (\<lambda>i. db_down_attempt)" sample_exception]
  by (simp add: startup_with_def db_down_attempt_def unreachable_db_load_def
        services_available_def attempt_error_def load_schema_documents_body_def)





lemma no_rows_no_documents:
  "table_documents [] = []" "view_documents [] = []"
  by (simp_all add: table_documents_def group_rows_def view_documents_def)

text \<open>
  C6.  An empty list of schema documents is replaced by the list holding exactly the
  placeholder document, whose content is the fixed non-empty text and whose metadata says
  \<open>placeholder\<close>; a non-empty list is kept.  A database whose two queries return no rows
  gives the empty list.  An attempt whose schema loading gives the empty list hands
  exactly the placeholder to \<open>add_documents\<close>, and no batch that start-up ever hands to
  \<open>add_documents\<close> is empty.
\<close>

theorem placeholder_for_empty_extraction:
  "docs_or_placeholder [] = [placeholder_document]
   \<and> page_content placeholder_document = ''No schema information available.''
   \<and> page_content placeholder_document \<noteq> []
   \<and> metadata placeholder_document = [(''source_type'', ''placeholder'')]
   \<and> (ds \<noteq> [] \<longrightarrow> docs_or_placeholder ds = ds)
   \<and> (create_engine_result lenv = None \<and> test_connect_result lenv = None
        \<and> connect_result (extract_env lenv) = None
        \<and> table_query_result (extract_env lenv) = Inr []
        \<and> view_query_result (extract_env lenv) = Inr [] \<longrightarrow>
          load_schema_documents lenv = [])
   \<and> (load_schema_documents (schema_db a) = [] \<and> chroma_init a = None \<and> chroma_count a = Inr n \<longrightarrow>
          indexed_batches (trace (snd (try_attempt a i st)))
            = indexed_batches (trace st) @ [[placeholder_document]])
   \<and> (\<forall>batch \<in> set (indexed_batches (trace (snd (lifespan_startup env)))). batch \<noteq> [])"
proof (intro conjI impI ballI)
  show "docs_or_placeholder [] = [placeholder_document]"
    by (simp add: docs_or_placeholder_def)
  show "page_content placeholder_document = ''No schema information available.''"
    by (simp add: placeholder_document_def)
  show "page_content placeholder_document \<noteq> []"
    by (simp add: placeholder_document_def)
  show "metadata placeholder_document = [(''source_type'', ''placeholder'')]"
    by (simp add: placeholder_document_def)
next
  assume "ds \<noteq> []"
  then show "docs_or_placeholder ds = ds" by (simp add: docs_or_placeholder_def)
next
  assume "create_engine_result lenv = None \<and> test_connect_result lenv = None
        \<and> connect_result (extract_env lenv) = None
        \<and> table_query_result (extract_env lenv) = Inr []
        \<and> view_query_result (extract_env lenv) = Inr []"
  then show "load_schema_documents lenv = []"
    by (simp add: load_schema_documents_def load_schema_documents_body_def
          extract_metadata_def extract_tables_def extract_views_def no_rows_no_documents)
next
  assume "load_schema_documents (schema_db a) = [] \<and> chroma_init a = None \<and> chroma_count a = Inr n"
  then show "indexed_batches (trace (snd (try_attempt a i st)))
            = indexed_batches (trace st) @ [[placeholder_document]]"
    by (simp add: try_attempt_trace attempt_batches_def docs_or_placeholder_def)
next
  fix batch
  assume "batch \<in> set (indexed_batches (trace (snd (lifespan_startup env))))"
  then show "batch \<noteq> []" by (rule lifespan_batches_nonempty)
qed

theorem placeholder_for_empty_extraction_witness:
  "load_schema_documents empty_db_load = []
   \<and> chroma_init empty_db_attempt = None \<and> chroma_count empty_db_attempt = Inr 7
   \<and> indexed_batches (trace (snd (try_attempt empty_db_attempt 0 initial_state)))
       = [[placeholder_document]]
   \<and> indexed_batches (trace (snd (lifespan_startup (startup_with (\<lambda>i. empty_db_attempt)))))
       = [[placeholder_document]]
   \<and> [placeholder_document] \<noteq> []"
  using placeholder_for_empty_extraction
          [of "[placeholder_document]" empty_db_load empty_db_attempt 7 0 initial_state
              "startup_with (\<lambda>i. empty_db_attempt)"]
    first_attempt_succeeds [of "startup_with (\<lambda>i. empty_db_attempt)"]
  by (simp add: empty_db_load_def empty_db_def empty_db_attempt_def initial_state_def
        startup_with_def services_available_def attempt_error_def docs_or_placeholder_def)

section \<open>Properties of the query endpoint\<close>

lemma handle_query_ready:
  "query_ready st \<Longrightarrow>
     handle_query st env q =
       Inr (run_sql_agent env q
             (retrieve_context (qa_chain_ainvoke env (retriever_k (the (qa_chain st))) q)))"
  by (auto simp: query_ready_def handle_query_def split: option.splits)






section \<open>Properties of the health endpoint\<close>

lemma text_not_imported: "''text'' \<notin> set main_module_names"
  by (simp add: main_module_names_def)

lemma db_probe_raises_NameError:
  "engine_connect env = None \<Longrightarrow>
     db_probe main_module_names env =
       Inl (PyExc ''NameError'' (''name '' @ [CHR 0x27] @ ''text'' @ [CHR 0x27] @ '' is not defined''))"
  using text_not_imported by (simp add: db_probe_def lookup_name_def)

lemma db_probe_never_succeeds: "db_probe main_module_names env \<noteq> Inr u"
  using text_not_imported by (simp add: db_probe_def lookup_name_def split: option.splits)

lemma health_check_never_ok: "status (health_check st env) \<noteq> ''ok''"
proof -
  obtain e where "db_probe main_module_names env = Inl e"
    using db_probe_never_succeeds [of env] by (cases "db_probe main_module_names env") auto
  then show ?thesis
    by (simp add: health_check_def health_check_in_def Let_def split: sum.splits)
qed

lemma health_check_in_ok_iff:
  "''text'' \<in> set names \<Longrightarrow>
     status (health_check_in names st env) = ''ok'' \<longleftrightarrow>
       all_components st \<and> engine_connect env = None \<and> select_1 env = None \<and> heartbeat env = None"
  by (auto simp: health_check_in_def Let_def all_components_def db_probe_def chroma_probe_def
        lookup_name_def split: sum.splits option.splits)

lemma health_check_in_error_iff:
  "status (health_check_in names st env) = ''error'' \<longleftrightarrow> no_component st"
  by (auto simp: health_check_in_def Let_def no_component_def split: sum.splits prod.splits)

text \<open>
  C3.  With all six components set, the database reachable and the vector store
  answering its heartbeat, \<open>health_check\<close> reports \<open>degraded\<close>: the name \<open>text\<close> is not
  bound in \<open>main.py\<close>, so the database probe ends in \<open>NameError\<close>, which the handler of the
  probe turns into the text of the \<open>postgresql_connection\<close> entry.  The same function run
  with \<open>text\<close> bound reports \<open>ok\<close> on that input.
\<close>

theorem health_check_all_up_is_degraded:
  "all_components ready_state
   \<and> engine_connect healthy_env = None \<and> select_1 healthy_env = None \<and> heartbeat healthy_env = None
   \<and> status (health_check ready_state healthy_env) = ''degraded''
   \<and> map_of (services (health_check ready_state healthy_env)) ''postgresql_connection''
       = Some (''Error: name '' @ [CHR 0x27] @ ''text'' @ [CHR 0x27] @ '' is not defined'')
   \<and> status (health_check_in (''text'' # main_module_names) ready_state healthy_env) = ''ok''"
  by (simp add: all_components_def ready_state_def healthy_env_def health_check_def
        health_check_in_def db_probe_def chroma_probe_def lookup_name_def
        main_module_names_def initialized_text_def Let_def)

section \<open>Properties of context retrieval\<close>


















section \<open>Properties of the SQL extraction\<close>





lemma py_index_None: "length xs \<le> i \<Longrightarrow> py_index xs i = None"
  by (induction xs i rule: py_index.induct) simp_all





lemma scan_steps_tool:
  "tool_matches step \<Longrightarrow> scan_steps (step # post) g = tool_input (fst step)"
  by simp



lemma py_contains_append: "py_contains sep (a @ sep @ b)"
proof (induction a)
  case Nil
  have p: "prefix sep (sep @ b)" by simp
  show ?case
  proof (cases "sep @ b")
    case Nil
    then show ?thesis by simp
  next
    case (Cons c cs)
    then have "prefix sep (c # cs)" using p by simp
    then show ?thesis using Cons by simp
  qed
next
  case (Cons x a)
  then show ?case by simp
qed



lemma first_occurrence_unique:
  assumes "c \<notin> set u" and "c \<notin> set v" and "u @ c # r = v @ c # r'"
  shows "u = v"
proof -
  have "takeWhile (\<lambda>x. x \<noteq> c) (u @ c # r) = u"
    using assms(1) by (subst takeWhile_append2) auto
  moreover have "takeWhile (\<lambda>x. x \<noteq> c) (v @ c # r') = v"
    using assms(2) by (subst takeWhile_append2) auto
  ultimately show ?thesis using assms(3) by simp
qed









section \<open>Properties of retrieval from the index\<close>

lemma mset_insert_ranked: "mset (insert_ranked score d xs) = add_mset d (mset xs)"
  by (induction xs) simp_all

lemma set_insert_ranked: "set (insert_ranked score d xs) = insert d (set xs)"
  by (induction xs) auto

lemma ranked_insert_ranked:
  "ranked_descending score xs \<Longrightarrow> ranked_descending score (insert_ranked score d xs)"
  by (induction xs) (auto simp: ranked_descending_def set_insert_ranked)

lemma mset_rank_by_similarity: "mset (rank_by_similarity score ds) = mset ds"
  by (induction ds) (simp_all add: rank_by_similarity_def mset_insert_ranked)

lemma ranked_rank_by_similarity: "ranked_descending score (rank_by_similarity score ds)"
proof (induction ds)
  case Nil
  then show ?case by (simp add: rank_by_similarity_def ranked_descending_def)
next
  case (Cons d ds)
  then show ?case
    using ranked_insert_ranked [of score "rank_by_similarity score ds" d]
    by (simp add: rank_by_similarity_def)
qed

lemma ranked_take: "ranked_descending score xs \<Longrightarrow> ranked_descending score (take k xs)"
  by (simp add: ranked_descending_def sorted_wrt_take)

lemma and_then_returns:
  "and_then r f = (Inr u, s') \<Longrightarrow> \<exists>s. r = (Inr (), s) \<and> f s = (Inr u, s')"
  by (cases r) (auto simp: and_then_def split: sum.splits)

lemma setup_qa_chain_returns:
  "setup_qa_chain env s = (Inr u, s') \<Longrightarrow> qa_chain s' = Some \<lparr>retriever_k = 3\<rparr>"
  by (auto simp: setup_qa_chain_def split: if_splits option.splits)

lemma setup_sql_agent_returns:
  "setup_sql_agent env s = (Inr u, s') \<Longrightarrow>
     qa_chain s' = qa_chain s \<and> sql_agent_executor s' \<and> llm s'"
  by (auto simp: setup_sql_agent_def split: if_splits option.splits)

lemma startup_returns_ready:
  assumes "lifespan_startup env = (Inr u, st)"
  shows "qa_chain st = Some \<lparr>retriever_k = 3\<rparr>" and "query_ready st"
proof -
  from assms obtain s2 where
    a: "and_then (and_then (and_then (and_then (load_environment env initial_state)
          (init_models env)) (init_database env)) (load_and_index env)) (setup_qa_chain env)
        = (Inr (), s2)"
    and b: "setup_sql_agent env s2 = (Inr u, st)"
    unfolding lifespan_startup_def initialize_rag_components_def
    using and_then_returns by blast
  from a obtain s1 where c: "setup_qa_chain env s1 = (Inr (), s2)"
    using and_then_returns by blast
  have "qa_chain s2 = Some \<lparr>retriever_k = 3\<rparr>"
    using setup_qa_chain_returns [OF c] .
  then show "qa_chain st = Some \<lparr>retriever_k = 3\<rparr>" and "query_ready st"
    using setup_sql_agent_returns [OF b] by (simp_all add: query_ready_def)
qed

text \<open>
  C9.  The retriever of the QA chain that start-up builds has \<open>k = 3\<close>.  The index queried
  with \<open>k = 3\<close> returns at most 3 documents, ranked by descending similarity: the first 3
  of a ranking of all stored documents.  \<open>handle_query\<close> hands the agent the contents of
  the returned documents joined by a newline, three dashes and a newline (and the fixed
  sentinel when none is returned).
\<close>

theorem retrieval_top_three:
  "(lifespan_startup senv = (Inr (), st) \<longrightarrow> qa_chain st = Some \<lparr>retriever_k = 3\<rparr>)
   \<and> length (index_query similarity idx q 3) \<le> 3
   \<and> ranked_descending (similarity q) (index_query similarity idx q 3)
   \<and> (\<exists>ranked. mset ranked = mset idx \<and> ranked_descending (similarity q) ranked
         \<and> index_query similarity idx q 3 = take 3 ranked)
   \<and> (query_ready st \<and> qa_chain st = Some \<lparr>retriever_k = 3\<rparr>
        \<and> qa_chain_ainvoke env = index_qa_chain similarity idx \<longrightarrow>
          handle_query st env q =
            Inr (run_sql_agent env q
              (if index_query similarity idx q 3 = [] then ''No context retrieved.''
               else py_join ([CHR 0x0A] @ ''---'' @ [CHR 0x0A])
                      (map page_content (index_query similarity idx q 3)))))"
proof (intro conjI impI)
  assume "lifespan_startup senv = (Inr (), st)"
  then show "qa_chain st = Some \<lparr>retriever_k = 3\<rparr>"
    by (rule startup_returns_ready(1))
next
  show "length (index_query similarity idx q 3) \<le> 3"
    by (simp add: index_query_def)
  show "ranked_descending (similarity q) (index_query similarity idx q 3)"
    by (simp add: index_query_def ranked_take ranked_rank_by_similarity)
  show "\<exists>ranked. mset ranked = mset idx \<and> ranked_descending (similarity q) ranked
         \<and> index_query similarity idx q 3 = take 3 ranked"
    using mset_rank_by_similarity [of "similarity q" idx]
      ranked_rank_by_similarity [of "similarity q" idx]
    by (intro exI [of _ "rank_by_similarity (similarity q) idx"]) (simp add: index_query_def)
next
  assume "query_ready st \<and> qa_chain st = Some \<lparr>retriever_k = 3\<rparr>
        \<and> qa_chain_ainvoke env = index_qa_chain similarity idx"
  then show "handle_query st env q =
            Inr (run_sql_agent env q
              (if index_query similarity idx q 3 = [] then ''No context retrieved.''
               else py_join ([CHR 0x0A] @ ''---'' @ [CHR 0x0A])
                      (map page_content (index_query similarity idx q 3))))"
    by (simp add: handle_query_ready index_qa_chain_def retrieve_context_def no_context_def
          context_separator_def NL_def)
qed

theorem retrieval_top_three_witness:
  "lifespan_startup (startup_with (\<lambda>i. empty_db_attempt))
     = (Inr (), ready_state\<lparr>trace := [LogAttempt 1 5, AddDocuments [placeholder_document]]\<rparr>)
   \<and> query_ready ready_state \<and> qa_chain ready_state = Some \<lparr>retriever_k = 3\<rparr>
   \<and> qa_chain_ainvoke index_env = index_qa_chain content_length sample_index
   \<and> index_query content_length sample_index sample_question 3
       = [text_doc ''dddd'', text_doc ''bbb'', text_doc ''cc'']
   \<and> handle_query ready_state index_env sample_question
       = Inr (run_sql_agent index_env sample_question
           (''dddd'' @ [CHR 0x0A] @ ''---'' @ [CHR 0x0A] @ ''bbb'' @ [CHR 0x0A] @ ''---''
            @ [CHR 0x0A] @ ''cc''))"
proof -
  have s: "lifespan_startup (startup_with (\<lambda>i. empty_db_attempt))
     = (Inr (), ready_state\<lparr>trace := [LogAttempt 1 5, AddDocuments [placeholder_document]]\<rparr>)"
    using first_attempt_succeeds [of "startup_with (\<lambda>i. empty_db_attempt)"]
    by (simp add: empty_db_load_def empty_db_def empty_db_attempt_def startup_with_def
          services_available_def attempt_error_def docs_or_placeholder_def ready_state_def
          load_schema_documents_def load_schema_documents_body_def extract_metadata_def
          extract_tables_def extract_views_def no_rows_no_documents max_retries_def)
  have r: "query_ready ready_state" "qa_chain ready_state = Some \<lparr>retriever_k = 3\<rparr>"
    by (simp_all add: query_ready_def ready_state_def)
  have e: "qa_chain_ainvoke index_env = index_qa_chain content_length sample_index"
    by (simp add: index_env_def)
  have i: "index_query content_length sample_index sample_question 3
       = [text_doc ''dddd'', text_doc ''bbb'', text_doc ''cc'']"
    by (simp add: index_query_def rank_by_similarity_def sample_index_def content_length_def
          text_doc_def)
  note t = retrieval_top_three [where st = ready_state and env = index_env
      and similarity = content_length and idx = sample_index and q = sample_question]
  from t r e have "handle_query ready_state index_env sample_question =
            Inr (run_sql_agent index_env sample_question
              (if index_query content_length sample_index sample_question 3 = []
               then ''No context retrieved.''
               else py_join ([CHR 0x0A] @ ''---'' @ [CHR 0x0A])
                      (map page_content (index_query content_length sample_index sample_question 3))))"
    by blast
  then have h: "handle_query ready_state index_env sample_question
       = Inr (run_sql_agent index_env sample_question
           (''dddd'' @ [CHR 0x0A] @ ''---'' @ [CHR 0x0A] @ ''bbb'' @ [CHR 0x0A] @ ''---''
            @ [CHR 0x0A] @ ''cc''))"
    by (simp add: i text_doc_def)
  show ?thesis
    using s r e i h by simp
qed

section \<open>Properties of the extracted documents\<close>

text \<open>
  C7.  The rows of two tables whose schema and name concatenate to the same key give one
  document, not two: the second table's column is appended to the first table's entry,
  and the document names only the first table.
\<close>

theorem colliding_table_keys_merge_tables:
  "table_objects colliding_rows = [(''a'', ''b.c''), (''a.b'', ''c'')]
   \<and> table_key ''a'' ''b.c'' = table_key ''a.b'' ''c''
   \<and> extract_metadata colliding_db =
        Inr [\<lparr>page_content = ''Table: b.c (Schema: a)'' @ NL @ ''Columns:'' @ NL
                 @ ''  - x (integer)'' @ NL @ ''  - y (integer)'',
              metadata = [(''source_type'', ''table''), (''table_name'', ''b.c''),
                          (''schema_name'', ''a'')]\<rparr>]"
  by (simp add: table_objects_def colliding_rows_def colliding_db_def table_key_def
        extract_metadata_def extract_tables_def extract_views_def table_documents_def
        view_documents_def group_rows_def append_column_def table_document_def
        table_doc_content_def render_column_def py_strip_def py_isspace_def NL_def)

text \<open>
  Apart from such keys the count of the claim holds: the dictionary has one entry per
  distinct key, and keys are distinct for distinct tables when no schema name has a dot.
\<close>

lemma keys_append_column [simp]: "map fst (append_column k c td) = map fst td"
  by (induction td) (auto simp: append_column_def)

lemma keys_add_row:
  "map fst (add_row td r) =
     (if (case row_object r of (s, t) \<Rightarrow> table_key s t) \<in> set (map fst td) then map fst td
      else map fst td @ [case row_object r of (s, t) \<Rightarrow> table_key s t])"
  by (cases r) (simp add: Let_def)

lemma keys_foldl_add_row:
  "distinct (map fst td) \<Longrightarrow>
     distinct (map fst (foldl add_row td rows))
     \<and> set (map fst (foldl add_row td rows))
         = set (map fst td) \<union> (\<lambda>r. case row_object r of (s, t) \<Rightarrow> table_key s t) ` set rows"
proof (induction rows arbitrary: td)
  case Nil
  then show ?case by simp
next
  case (Cons r rows)
  have d: "distinct (map fst (add_row td r))"
    using Cons.prems by (simp add: keys_add_row)
  have s: "set (map fst (add_row td r))
             = insert (case row_object r of (s, t) \<Rightarrow> table_key s t) (set (map fst td))"
    by (auto simp: keys_add_row)
  show ?case
    using Cons.IH [OF d] s by auto
qed

lemma length_group_rows:
  "length (group_rows rows)
     = card ((\<lambda>r. case row_object r of (s, t) \<Rightarrow> table_key s t) ` set rows)"
proof -
  have "distinct (map fst (group_rows rows))"
    and "set (map fst (group_rows rows))
           = (\<lambda>r. case row_object r of (s, t) \<Rightarrow> table_key s t) ` set rows"
    using keys_foldl_add_row [of "[]" rows] by (simp_all add: group_rows_def)
  then have "card ((\<lambda>r. case row_object r of (s, t) \<Rightarrow> table_key s t) ` set rows)
               = length (map fst (group_rows rows))"
    using distinct_card [of "map fst (group_rows rows)"] by simp
  then show ?thesis
    by simp
qed

lemma table_key_unambiguous:
  assumes "CHR ''.'' \<notin> set s" and "CHR ''.'' \<notin> set s'" and "table_key s t = table_key s' t'"
  shows "s = s' \<and> t = t'"
proof -
  have e: "s @ CHR ''.'' # t = s' @ CHR ''.'' # t'"
    using assms(3) by (simp add: table_key_def)
  then have "s = s'"
    using first_occurrence_unique [OF assms(1,2)] by blast
  then show ?thesis using e by simp
qed

text \<open>With schema names free of dots, the tables are counted right.\<close>

lemma length_table_documents:
  assumes "\<forall>r \<in> set rows. CHR ''.'' \<notin> set (fst r)"
  shows "length (table_documents rows) = length (table_objects rows)"
proof -
  let ?key = "\<lambda>(s, t). table_key s t"
  have inj: "inj_on ?key (row_object ` set rows)"
  proof (rule inj_onI)
    fix x y
    assume x: "x \<in> row_object ` set rows" and y: "y \<in> row_object ` set rows"
      and k: "?key x = ?key y"
    from x assms have "CHR ''.'' \<notin> set (fst x)" by auto
    moreover from y assms have "CHR ''.'' \<notin> set (fst y)" by auto
    ultimately show "x = y"
      using k table_key_unambiguous [of "fst x" "fst y" "snd x" "snd y"]
      by (cases x, cases y) simp
  qed
  have "(\<lambda>r. case row_object r of (s, t) \<Rightarrow> table_key s t) ` set rows
          = ?key ` (row_object ` set rows)"
    by (simp add: image_image)
  then have "length (group_rows rows) = card (row_object ` set rows)"
    using card_image [OF inj] by (simp add: length_group_rows)
  moreover have "length (table_objects rows) = card (row_object ` set rows)"
    by (simp add: table_objects_def length_remdups_card_conv)
  ultimately show ?thesis
    by (simp add: table_documents_def)
qed

lemma extract_metadata_count:
  assumes "connect_result db = None" and "table_query_result db = Inr trows"
    and "view_query_result db = Inr vrows"
    and "\<forall>r \<in> set trows. CHR ''.'' \<notin> set (fst r)"
  shows "\<exists>docs. extract_metadata db = Inr docs
           \<and> length docs = length (table_objects trows) + length vrows"
  using assms length_table_documents [of trows]
  by (simp add: extract_metadata_def extract_tables_def extract_views_def view_documents_def)


lemma py_strip_keeps_header:
  assumes "h \<noteq> []" and "\<not> py_isspace (hd h)" and "\<not> py_isspace (last h)"
  shows "\<exists>t'. py_strip (h @ t) = h @ t'"
proof -
  have front: "dropWhile py_isspace (h @ t) = h @ t"
    using assms(1,2) by (cases h) simp_all
  have "\<not> py_isspace (hd (rev h))"
    using assms(1,3) by (simp add: hd_rev)
  then have rear: "dropWhile py_isspace (rev h) = rev h"
    using assms(1) by (cases "rev h") simp_all
  have "dropWhile py_isspace (rev t @ rev h)
          = (if \<forall>x \<in> set (rev t). py_isspace x then rev h
             else dropWhile py_isspace (rev t) @ rev h)"
    using rear by (simp add: dropWhile_append)
  then have "rev (dropWhile py_isspace (rev (h @ t)))
          = h @ (if \<forall>x \<in> set t. py_isspace x then [] else rev (dropWhile py_isspace (rev t)))"
    by simp
  then show ?thesis
    unfolding py_strip_def front by blast
qed

text \<open>The content of a table's document names the table and its schema.\<close>

lemma table_document_names_object:
  "py_contains (t_name d) (page_content (table_document d))
   \<and> py_contains (t_schema d) (page_content (table_document d))"
proof -
  let ?h = "''Table: '' @ t_name d @ '' (Schema: '' @ t_schema d @ '')''"
  have "table_doc_content d = ?h @ (NL
          @ (if t_comment d \<noteq> [] then ''Comment: '' @ t_comment d @ NL else [])
          @ ''Columns:'' @ NL @ concat (map render_column (t_columns d)))"
    by (simp add: table_doc_content_def)
  moreover have "?h \<noteq> []" "\<not> py_isspace (hd ?h)" "\<not> py_isspace (last ?h)"
    by (simp_all add: py_isspace_def)
  ultimately obtain t' where t': "py_strip (table_doc_content d) = ?h @ t'"
    using py_strip_keeps_header [of ?h] by metis
  have "py_contains (t_name d) (''Table: '' @ t_name d @ ('' (Schema: '' @ t_schema d @ '')'' @ t'))"
    by (rule py_contains_append)
  moreover have "py_contains (t_schema d)
      ((''Table: '' @ t_name d @ '' (Schema: '') @ t_schema d @ ('')'' @ t'))"
    by (rule py_contains_append)
  ultimately show ?thesis
    using t' by (simp add: table_document_def)
qed

text \<open>The content of a view's document names the view and its schema.\<close>

lemma view_document_names_object:
  "py_contains view_name
     (page_content (view_document (view_schema, view_name, view_def, view_comment)))
   \<and> py_contains view_schema
     (page_content (view_document (view_schema, view_name, view_def, view_comment)))"
proof -
  let ?h = "''View: '' @ view_name @ '' (Schema: '' @ view_schema @ '')''"
  have "view_doc_content (view_schema, view_name, view_def, view_comment) = ?h @ (NL
          @ (if view_comment \<noteq> [] then ''Comment: '' @ view_comment @ NL else [])
          @ ''Definition:'' @ NL @ py_format_opt view_def @ NL)"
    by simp
  moreover have "?h \<noteq> []" "\<not> py_isspace (hd ?h)" "\<not> py_isspace (last ?h)"
    by (simp_all add: py_isspace_def)
  ultimately obtain t' where
    t': "py_strip (view_doc_content (view_schema, view_name, view_def, view_comment)) = ?h @ t'"
    using py_strip_keeps_header [of ?h] by metis
  have "py_contains view_name (''View: '' @ view_name @ ('' (Schema: '' @ view_schema @ '')'' @ t'))"
    by (rule py_contains_append)
  moreover have "py_contains view_schema
      ((''View: '' @ view_name @ '' (Schema: '') @ view_schema @ ('')'' @ t'))"
    by (rule py_contains_append)
  ultimately show ?thesis
    using t' by (simp del: view_doc_content.simps)
qed

end
